theory Spec2Isabelle
  imports Main
begin

section \<open>JavaScript string primitives\<close>

text \<open>
  A JavaScript string is a sequence of code units. The model takes \<^typ>\<open>string\<close>
  (a \<^typ>\<open>char list\<close>), so it covers the code units below 256; nothing below depends
  on a code unit's value except the marker, the newline, the white space removed by
  \<open>trim\<close>, the letters changed by \<open>toLowerCase\<close> and the dollar patterns of
  \<open>replace\<close>.
\<close>

definition startsWith :: "string \<Rightarrow> string \<Rightarrow> bool" where
  "startsWith s p = (take (length p) s = p)"

definition endsWith :: "string \<Rightarrow> string \<Rightarrow> bool" where
  "endsWith s p = (length p \<le> length s \<and> drop (length s - length p) s = p)"

text \<open>\<open>s.indexOf(c)\<close> for a one-character search string: \<open>None\<close> is the \<open>-1\<close> of JavaScript.\<close>

fun indexOf :: "string \<Rightarrow> char \<Rightarrow> nat option" where
  "indexOf [] c = None"
| "indexOf (x # xs) c = (if x = c then Some 0 else map_option Suc (indexOf xs c))"

text \<open>
  White space and line terminators of ECMAScript in the range of the model: TAB, LF, VT,
  FF, CR, SP and NBSP.
\<close>

definition isWhiteSpace :: "char \<Rightarrow> bool" where
  "isWhiteSpace c = (of_char c \<in> {9, 10, 11, 12, 13, 32, 160 :: nat})"

definition trim :: "string \<Rightarrow> string" where
  "trim s = rev (dropWhile isWhiteSpace (rev (dropWhile isWhiteSpace s)))"

text \<open>\<open>xs.join(sep)\<close> on an array of strings.\<close>

fun join :: "string \<Rightarrow> string list \<Rightarrow> string" where
  "join sep [] = []"
| "join sep [x] = x"
| "join sep (x # y # ys) = x @ sep @ join sep (y # ys)"

section \<open>Data model\<close>

text \<open>\<open>FileData\<close> of \<open>CodeWorkspace.tsx\<close>, and the state that \<open>App\<close> keeps in hooks.\<close>

record FileData =
  fileName :: string
  content :: string

record App =
  prompt :: string
  files :: "FileData list"
  activeFileName :: string
  isLoading :: bool
  error :: "string option"
  snippets :: "string list"
  isSnippetsLoading :: bool
  snippetsError :: "string option"

text \<open>
  While \<open>handleSubmit\<close> runs it has two locals besides the state of \<open>App\<close>:
  \<open>currentFileName\<close> (\<open>null\<close> is \<open>None\<close>) and \<open>buffer\<close>.
\<close>

record Submit = App +
  currentFileName :: "string option"
  buffer :: string

text \<open>What a \<open>catch (e)\<close> receives: an \<open>Error\<close> with its message, or any other value.\<close>

datatype thrown = Error string | NonError

fun errorMessage :: "thrown \<Rightarrow> string" where
  "errorMessage (Error m) = m"
| "errorMessage NonError = ''An unknown error occurred.''"

text \<open>
  The generation request as \<open>handleSubmit\<close> sees it: the texts that \<open>buffer += chunk.text\<close>
  appends for the chunks the asynchronous iterator yields, in order, and then either its
  completion (\<open>None\<close>) or the value it throws. The chunks come in groups: the chunks of one
  group are processed one after the other before React renders again, and React renders
  between two groups. A request that throws before the first chunk is \<open>Stream [] (Some e)\<close>.
\<close>

datatype gen_stream = Stream "string list list" "thrown option"

text \<open>
  \<open>setFiles\<close> with an updater and \<open>setActiveFileName\<close> do not change the state when they
  are called: React queues them and runs the queue, in order, at its next render. The
  updater of a marker line holds \<open>newFileName\<close>, a constant of its iteration. The updater
  of a content line holds \<open>line\<close>, a constant of its iteration, and \<open>currentFileName\<close>,
  the variable of \<open>handleSubmit\<close>, which it reads when React runs it.
\<close>

datatype update = AddFile string | SetActiveFileName string | AppendLine string

record Pending = Submit +
  queue :: "update list"

section \<open>The stream demuxer of \<open>handleSubmit\<close>\<close>

text \<open>
  React runs one queued update on the state; \<open>cur\<close> is the value \<open>currentFileName\<close> has at
  that moment.
\<close>

fun runUpdate :: "string option \<Rightarrow> update \<Rightarrow> 'a App_scheme \<Rightarrow> 'a App_scheme" where
  "runUpdate cur (AddFile newFileName) a =
     a\<lparr>files := (if list_ex (\<lambda>f. fileName f = newFileName) (files a) then files a
                  else files a @ [\<lparr>fileName = newFileName, content = []\<rparr>])\<rparr>"
| "runUpdate cur (SetActiveFileName newFileName) a = a\<lparr>activeFileName := newFileName\<rparr>"
| "runUpdate cur (AppendLine line) a =
     a\<lparr>files := map (\<lambda>f. if Some (fileName f) = cur
                          then f\<lparr>content := content f @ line @ [CHR 0x0A]\<rparr>
                          else f) (files a)\<rparr>"

text \<open>
  The body of the \<open>while\<close> loop for one complete line (the text before the line feed): it
  assigns \<open>currentFileName\<close> and queues updates. A content line queues its update when
  \<open>currentFileName\<close> is set at that moment.
\<close>

definition handleSubmit_enqueue :: "string \<Rightarrow> Pending \<Rightarrow> Pending" where
  "handleSubmit_enqueue line p =
     (if startsWith line ''>>>FILE:'' then
        (let newFileName = trim (drop (length ''>>>FILE:'') line) in
         if newFileName \<noteq> [] then
           p\<lparr>currentFileName := Some newFileName,
              queue := queue p @ [AddFile newFileName, SetActiveFileName newFileName]\<rparr>
         else p)
      else
        (case currentFileName p of
           None \<Rightarrow> p
         | Some cur \<Rightarrow> if cur \<noteq> [] then p\<lparr>queue := queue p @ [AppendLine line]\<rparr> else p))"

lemma indexOf_less: "indexOf b c = Some i \<Longrightarrow> i < length b"
  by (induction b arbitrary: i) (auto split: if_splits)

lemma handleSubmit_enqueue_buffer [simp]: "buffer (handleSubmit_enqueue l p) = buffer p"
  by (simp add: handleSubmit_enqueue_def Let_def split: option.splits)

text \<open>The \<open>while\<close> loop: take complete lines off the front of \<open>buffer\<close> until none is left.\<close>

function handleSubmit_lines :: "Pending \<Rightarrow> Pending" where
  "handleSubmit_lines p =
     (case indexOf (buffer p) (CHR 0x0A) of
        None \<Rightarrow> p
      | Some lineEndIndex \<Rightarrow>
          handleSubmit_lines
            (handleSubmit_enqueue (take lineEndIndex (buffer p))
               (p\<lparr>buffer := drop (lineEndIndex + 1) (buffer p)\<rparr>)))"
  by pat_completeness auto
termination
  by (relation "measure (\<lambda>p. length (buffer p))") (auto dest: indexOf_less)

declare handleSubmit_lines.simps [simp del]

text \<open>The body of \<open>for await\<close> for one chunk.\<close>

definition handleSubmit_chunk :: "string \<Rightarrow> Pending \<Rightarrow> Pending" where
  "handleSubmit_chunk chunk p = handleSubmit_lines (p\<lparr>buffer := buffer p @ chunk\<rparr>)"

text \<open>
  After a render nothing is queued. At the next render React runs the queue in order; every
  content update then reads the value \<open>currentFileName\<close> has by now.
\<close>

definition handleSubmit_pending :: "Submit \<Rightarrow> Pending" where
  "handleSubmit_pending s = Submit.extend s (Pending.fields [])"

definition handleSubmit_flush :: "Pending \<Rightarrow> Submit" where
  "handleSubmit_flush p = Submit.truncate (fold (runUpdate (currentFileName p)) (queue p) p)"

text \<open>A group of chunks and the render that follows it, and the loop over the groups.\<close>

definition handleSubmit_batch :: "string list \<Rightarrow> Submit \<Rightarrow> Submit" where
  "handleSubmit_batch chunks s =
     handleSubmit_flush (fold handleSubmit_chunk chunks (handleSubmit_pending s))"

primrec handleSubmit_stream :: "string list list \<Rightarrow> Submit \<Rightarrow> Submit" where
  "handleSubmit_stream [] s = s"
| "handleSubmit_stream (chunks # groups) s = handleSubmit_stream groups (handleSubmit_batch chunks s)"

text \<open>One line that is processed, and rendered, with nothing else queued.\<close>

definition handleSubmit_line :: "string \<Rightarrow> Submit \<Rightarrow> Submit" where
  "handleSubmit_line line s = handleSubmit_flush (handleSubmit_enqueue line (handleSubmit_pending s))"

text \<open>
  After the loop: what is left in \<open>buffer\<close> goes to the current file as it is. This updater
  reads \<open>currentFileName\<close> and \<open>buffer\<close> when React runs it; neither changes after the loop.
\<close>

definition handleSubmit_rest :: "Submit \<Rightarrow> Submit" where
  "handleSubmit_rest s =
     (case currentFileName s of
        None \<Rightarrow> s
      | Some cur \<Rightarrow>
          if cur \<noteq> [] \<and> length (buffer s) > 0 then
            s\<lparr>files := map (\<lambda>f. if fileName f = cur
                                 then f\<lparr>content := content f @ buffer s\<rparr>
                                 else f) (files s)\<rparr>
          else s)"

text \<open>The state and the locals when the \<open>try\<close> block is entered.\<close>

definition handleSubmit_begin :: "App \<Rightarrow> Submit" where
  "handleSubmit_begin a =
     App.extend (a\<lparr>isLoading := True, error := None, files := []\<rparr>) (Submit.fields None [])"

text \<open>
  What \<open>handleSubmit\<close> leaves once React has run all its updates. \<open>NotStarted a\<close>: the guard
  returned at once and the state is \<open>a\<close>. \<open>FilesPromise a\<close>: the last update of \<open>finally\<close>
  gives \<open>setFiles\<close> an \<open>async\<close> function as updater; React stores what the updater returns,
  so the state \<open>files\<close> is a Promise and no longer a list of files. The other fields of
  the state are those of \<open>a\<close>, and \<open>files a\<close> is the list the updater was called with.
\<close>

datatype submit_outcome = NotStarted App | FilesPromise App

text \<open>
  \<open>handleSubmit\<close>. The updates queued after the last group (the remainder or the error,
  \<open>setIsLoading(false)\<close> and the formatting updater) run in this order after those of the
  groups, whether or not React renders in between.
\<close>

definition handleSubmit :: "gen_stream \<Rightarrow> App \<Rightarrow> submit_outcome" where
  "handleSubmit g a =
     (if trim (prompt a) = [] \<or> isLoading a then NotStarted a
      else
        (case g of Stream groups outcome \<Rightarrow>
           (let s = handleSubmit_stream groups (handleSubmit_begin a) in
            FilesPromise
              (App.truncate
                 ((case outcome of
                     None \<Rightarrow> handleSubmit_rest s
                   | Some e \<Rightarrow>
                       s\<lparr>error := Some (''Failed to generate code: '' @ errorMessage e
                                         @ ''. Please check your API key and try again.'')\<rparr>)
                  \<lparr>isLoading := False\<rparr>)))))"

section \<open>The initial project\<close>

text \<open>
  \<open>DEFAULT_FILES\<close>, each content written as its lines, joined by line feeds; the double
  quote is \<open>CHR 0x22\<close>.
\<close>

definition DEFAULT_FILES :: "FileData list" where
  "DEFAULT_FILES =
     [\<lparr>fileName = ''index.html'',
       content = join [CHR 0x0A]
         [''<!DOCTYPE html>'',
          ''<html lang='' @ [CHR 0x22] @ ''en'' @ [CHR 0x22] @ ''>'',
          ''<head>'',
          ''    <meta charset='' @ [CHR 0x22] @ ''UTF-8'' @ [CHR 0x22] @ ''>'',
          ''    <meta name='' @ [CHR 0x22] @ ''viewport'' @ [CHR 0x22] @ '' content='' @ [CHR 0x22] @ ''width=device-width, initial-scale=1.0'' @ [CHR 0x22] @ ''>'',
          ''    <title>My Awesome Project</title>'',
          ''    <link rel='' @ [CHR 0x22] @ ''stylesheet'' @ [CHR 0x22] @ '' href='' @ [CHR 0x22] @ ''style.css'' @ [CHR 0x22] @ ''>'',
          ''</head>'',
          ''<body>'',
          ''    <h1>Hello, World!</h1>'',
          ''    <p>Describe what you want to build in the input below.</p>'',
          ''    <script src='' @ [CHR 0x22] @ ''script.js'' @ [CHR 0x22] @ ''></script>'',
          ''</body>'',
          ''</html>'']\<rparr>,
      \<lparr>fileName = ''style.css'',
       content = join [CHR 0x0A]
         [''body {'',
          ''  font-family: sans-serif;'',
          ''  background-color: #f0f0f0;'',
          ''  color: #333;'',
          ''  display: flex;'',
          ''  flex-direction: column;'',
          ''  justify-content: center;'',
          ''  align-items: center;'',
          ''  min-height: 100vh;'',
          ''  margin: 0;'',
          ''}'']\<rparr>,
      \<lparr>fileName = ''script.js'',
       content = ''console.log('' @ [CHR 0x22] @ ''Welcome to your new project!'' @ [CHR 0x22] @ '');''\<rparr>]"

text \<open>
  The state of \<open>App\<close> after its \<open>useState\<close> initialisers. The argument is what local
  storage holds under \<open>code-project\<close>: \<open>None\<close> when there is nothing or it does not parse.
\<close>

definition App_init :: "FileData list option \<Rightarrow> App" where
  "App_init saved =
     (let fs = (case saved of None \<Rightarrow> DEFAULT_FILES | Some parsed \<Rightarrow> parsed) in
      \<lparr>prompt = [],
       files = fs,
       activeFileName = (case fs of [] \<Rightarrow> ''index.html''
                         | f # _ \<Rightarrow> if fileName f = [] then ''index.html'' else fileName f),
       isLoading = False,
       error = None,
       snippets = [],
       isSnippetsLoading = False,
       snippetsError = None\<rparr>)"

section \<open>File management and the active file\<close>

text \<open>The names of the files, in order.\<close>

definition fileNames :: "FileData list \<Rightarrow> string list" where
  "fileNames fs = map fileName fs"

text \<open>\<open>fs[0]?.fileName || ''\<close>: the first name, or the empty string.\<close>

definition firstFileName :: "FileData list \<Rightarrow> string" where
  "firstFileName fs = (case fs of [] \<Rightarrow> [] | f # _ \<Rightarrow> if fileName f = [] then [] else fileName f)"

text \<open>
  The effect of \<open>App\<close> on \<open>[files, activeFileName]\<close>, which runs after a render that changed
  either (its write to local storage is not part of the state).
\<close>

definition reconcile :: "App \<Rightarrow> App" where
  "reconcile a =
     (if list_ex (\<lambda>f. fileName f = activeFileName a) (files a) then a
      else a\<lparr>activeFileName := firstFileName (files a)\<rparr>)"


text \<open>\<open>handleCreateFile\<close> and \<open>handleDeleteFile\<close> of \<open>CodeWorkspace\<close>.\<close>

definition handleCreateFile :: "string \<Rightarrow> App \<Rightarrow> App" where
  "handleCreateFile name a =
     a\<lparr>files := files a @ [\<lparr>fileName = name, content = []\<rparr>], activeFileName := name\<rparr>"


text \<open>
  \<open>toLowerCase\<close> in the range of the model: the letters A to Z, and the capital letters
  of Latin-1 (0xC0 to 0xDE without the multiplication sign 0xD7).
\<close>

definition toLowerCase_char :: "char \<Rightarrow> char" where
  "toLowerCase_char c =
     (let n = (of_char c :: nat) in
      if (65 \<le> n \<and> n \<le> 90) \<or> (192 \<le> n \<and> n \<le> 222 \<and> n \<noteq> 215) then char_of (n + 32) else c)"

definition toLowerCase :: "string \<Rightarrow> string" where
  "toLowerCase s = map toLowerCase_char s"

text \<open>
  \<open>handleSubmit\<close> of \<open>NewFileModal\<close>: \<open>Inl\<close> is the message it shows with \<open>setError\<close>,
  \<open>Inr\<close> the name it hands to \<open>onCreate\<close>.
\<close>

definition NewFileModal_handleSubmit :: "string list \<Rightarrow> string \<Rightarrow> string + string" where
  "NewFileModal_handleSubmit existingFiles name =
     (let trimmedName = trim name in
      if trimmedName = [] then Inl ''File name cannot be empty.''
      else if list_ex (\<lambda>f. toLowerCase f = toLowerCase trimmedName) existingFiles
        then Inl (''A file named '' @ [CHR 0x22] @ trimmedName @ [CHR 0x22] @ '' already exists.'')
      else Inr trimmedName)"

text \<open>
  Creating a file is the modal wired to \<open>handleCreateFile\<close> with the names of the files;
  the result is the message of the modal, if any, and the state of \<open>App\<close>.
\<close>

definition createFile :: "string \<Rightarrow> App \<Rightarrow> string option \<times> App" where
  "createFile name a =
     (case NewFileModal_handleSubmit (map fileName (files a)) name of
        Inl msg \<Rightarrow> (Some msg, a)
      | Inr trimmedName \<Rightarrow> (None, handleCreateFile trimmedName a))"




section \<open>Snippets\<close>

text \<open>
  What \<open>handleFetchSnippets\<close> gets back: the request throws, \<open>JSON.parse\<close> (or reading the
  text) throws, or a value is parsed, whose \<open>snippets\<close> is an array (\<open>Some\<close>) or is missing
  or something else (\<open>None\<close>).
\<close>

datatype snippet_reply = RequestThrows thrown | ParseThrows thrown | Parsed "string list option"

text \<open>The \<open>try\<close> block: \<open>Inl\<close> is what it throws, \<open>Inr\<close> what it passes to \<open>setSnippets\<close>.\<close>

fun handleFetchSnippets_try :: "snippet_reply \<Rightarrow> thrown + string list" where
  "handleFetchSnippets_try (RequestThrows e) = Inl e"
| "handleFetchSnippets_try (ParseThrows e) = Inl e"
| "handleFetchSnippets_try (Parsed (Some xs)) = Inr xs"
| "handleFetchSnippets_try (Parsed None) = Inl (Error ''Invalid snippet format from API.'')"

definition handleFetchSnippets :: "snippet_reply \<Rightarrow> App \<Rightarrow> App" where
  "handleFetchSnippets r a =
     (let a1 = a\<lparr>isSnippetsLoading := True, snippetsError := None, snippets := []\<rparr> in
      (case handleFetchSnippets_try r of
         Inr xs \<Rightarrow> a1\<lparr>snippets := xs\<rparr>
       | Inl e \<Rightarrow> a1\<lparr>snippetsError := Some (''Failed to fetch snippets: '' @ errorMessage e)\<rparr>)
      \<lparr>isSnippetsLoading := False\<rparr>)"

section \<open>Preview composition\<close>

text \<open>
  \<open>str.replace(/pat/, replacement)\<close> for a pattern that is a literal text with no group
  and no flag: the first match is the leftmost occurrence, and the replacement text goes
  through \<open>GetSubstitution\<close> of ECMAScript, where \<open>$$\<close> is a dollar, \<open>$&\<close> the match,
  \<open>$`\<close> the text before it and \<open>$'\<close> the text after it; with no group, every other
  dollar stands for itself.
\<close>

fun search :: "string \<Rightarrow> string \<Rightarrow> nat option" where
  "search [] pat = (if pat = [] then Some 0 else None)"
| "search (x # xs) pat =
     (if startsWith (x # xs) pat then Some 0 else map_option Suc (search xs pat))"

fun getSubstitution :: "string \<Rightarrow> string \<Rightarrow> nat \<Rightarrow> string \<Rightarrow> string" where
  "getSubstitution matched str position [] = []"
| "getSubstitution matched str position [c] = [c]"
| "getSubstitution matched str position (c # d # t) =
     (if c = CHR ''$'' \<and> d = CHR ''$'' then CHR ''$'' # getSubstitution matched str position t
      else if c = CHR ''$'' \<and> d = CHR ''&'' then matched @ getSubstitution matched str position t
      else if c = CHR ''$'' \<and> d = CHR 0x60 then
        take position str @ getSubstitution matched str position t
      else if c = CHR ''$'' \<and> d = CHR 0x27 then
        drop (position + length matched) str @ getSubstitution matched str position t
      else c # getSubstitution matched str position (d # t))"

definition replace :: "string \<Rightarrow> string \<Rightarrow> string \<Rightarrow> string" where
  "replace str pat replacement =
     (case search str pat of
        None \<Rightarrow> str
      | Some position \<Rightarrow>
          take position str @ getSubstitution pat str position replacement
          @ drop (position + length pat) str)"

text \<open>The memo \<open>htmlContent\<close> of \<open>App\<close>, as a function of the files.\<close>

definition htmlContent :: "FileData list \<Rightarrow> string" where
  "htmlContent fs =
     (case find (\<lambda>f. endsWith (fileName f) ''.html'') fs of
        None \<Rightarrow> ''<html><body><p>No index.html file found.</p></body></html>''
      | Some htmlFile \<Rightarrow>
          (let processedHtml = content htmlFile;
               cssFiles = filter (\<lambda>f. endsWith (fileName f) ''.css'') fs;
               processedHtml =
                 (if length cssFiles > 0 then
                    replace processedHtml ''</head>''
                      (''<style>'' @ join [CHR 0x0A] (map content cssFiles) @ ''</style></head>'')
                  else processedHtml);
               jsFiles = filter (\<lambda>f. endsWith (fileName f) ''.js'') fs;
               processedHtml =
                 (if length jsFiles > 0 then
                    replace processedHtml ''</body>''
                      (''<script>'' @ join ('';'' @ [CHR 0x0A]) (map content jsFiles)
                       @ ''</script></body>'')
                  else processedHtml)
           in processedHtml))"

text \<open>
  The composition in the words of the specification. \<open>inject_before tag block doc\<close> puts
  \<open>block\<close> in front of the first \<open>tag\<close> of \<open>doc\<close>, and leaves \<open>doc\<close> as it is when it has
  none. The argument \<open>inject\<close> says, from the collected files and their joined contents,
  whether they are injected; the argument \<open>inner\<close> gives, from the document, the tag and
  the joined contents, the text inside the injected element.
\<close>

definition inject_before :: "string \<Rightarrow> string \<Rightarrow> string \<Rightarrow> string" where
  "inject_before tag block doc =
     (case search doc tag of None \<Rightarrow> doc | Some i \<Rightarrow> take i doc @ block @ drop i doc)"

definition compose_spec ::
  "(FileData list \<Rightarrow> string \<Rightarrow> bool) \<Rightarrow> (string \<Rightarrow> string \<Rightarrow> string \<Rightarrow> string)
   \<Rightarrow> FileData list \<Rightarrow> string" where
  "compose_spec inject inner fs =
     (case find (\<lambda>f. endsWith (fileName f) ''.html'') fs of
        None \<Rightarrow> ''<html><body><p>No index.html file found.</p></body></html>''
      | Some base \<Rightarrow>
          (let cssFiles = filter (\<lambda>f. endsWith (fileName f) ''.css'') fs;
               css = join [CHR 0x0A] (map content cssFiles);
               doc = (if inject cssFiles css
                      then inject_before ''</head>''
                             (''<style>'' @ inner (content base) ''</head>'' css @ ''</style>'')
                             (content base)
                      else content base);
               jsFiles = filter (\<lambda>f. endsWith (fileName f) ''.js'') fs;
               js = join ('';'' @ [CHR 0x0A]) (map content jsFiles)
           in if inject jsFiles js
              then inject_before ''</body>'' (''<script>'' @ inner doc ''</body>'' js @ ''</script>'') doc
              else doc))"

text \<open>The specification injects the collected text, when it is not empty.\<close>

definition compose_claimed :: "FileData list \<Rightarrow> string" where
  "compose_claimed fs = compose_spec (\<lambda>collected joined. joined \<noteq> []) (\<lambda>doc tag joined. joined) fs"

text \<open>The amended rule injects when a file was collected.\<close>

definition compose_amended :: "FileData list \<Rightarrow> string" where
  "compose_amended fs = compose_spec (\<lambda>collected joined. collected \<noteq> []) (\<lambda>doc tag joined. joined) fs"

text \<open>
  What \<open>replace\<close> makes of a collected text inside the element: the text with its dollar
  patterns expanded at the place of the tag.
\<close>

definition substituted :: "string \<Rightarrow> string \<Rightarrow> string \<Rightarrow> string" where
  "substituted doc tag joined =
     (case search doc tag of None \<Rightarrow> joined | Some i \<Rightarrow> getSubstitution tag doc i joined)"

text \<open>
  The dollar patterns that \<open>getSubstitution\<close> rewrites: a dollar followed by a dollar, an
  ampersand, a backquote or an apostrophe.
\<close>

definition dollar_special :: "char \<Rightarrow> bool" where
  "dollar_special d = (d = CHR ''$'' \<or> d = CHR ''&'' \<or> d = CHR 0x60 \<or> d = CHR 0x27)"

fun dollar_pattern :: "string \<Rightarrow> bool" where
  "dollar_pattern (c # d # t) = ((c = CHR ''$'' \<and> dollar_special d) \<or> dollar_pattern (d # t))"
| "dollar_pattern _ = False"

text \<open>
  A separator or a tag that holds no dollar and does not begin with one of the four
  characters neither makes nor completes a pattern.
\<close>

definition plain :: "string \<Rightarrow> bool" where
  "plain sep = (sep \<noteq> [] \<and> CHR ''$'' \<notin> set sep \<and> \<not> dollar_special (hd sep))"

section \<open>Chunks inside a group\<close>

text \<open>
  Inside a group the chunk boundaries do not matter: the same lines are cut from the same
  text and the same updates are queued.
\<close>

lemma indexOf_append:
  "indexOf b c = Some i \<Longrightarrow> indexOf (b @ x) c = Some i"
  by (induction b arbitrary: i) (auto split: if_splits)

lemma handleSubmit_enqueue_buffer_update:
  "handleSubmit_enqueue l (p\<lparr>buffer := b\<rparr>) = (handleSubmit_enqueue l p)\<lparr>buffer := b\<rparr>"
  by (simp add: handleSubmit_enqueue_def Let_def split: option.splits)

lemma handleSubmit_lines_no_line:
  "indexOf (buffer p) (CHR 0x0A) = None \<Longrightarrow> handleSubmit_lines p = p"
  by (simp add: handleSubmit_lines.simps [of p])

lemma handleSubmit_lines_append:
  "handleSubmit_lines ((handleSubmit_lines p)\<lparr>buffer := buffer (handleSubmit_lines p) @ x\<rparr>)
   = handleSubmit_lines (p\<lparr>buffer := buffer p @ x\<rparr>)"
proof (induction p rule: handleSubmit_lines.induct)
  case (1 p)
  show ?case
  proof (cases "indexOf (buffer p) (CHR 0x0A)")
    case None
    then have "handleSubmit_lines p = p"
      by (rule handleSubmit_lines_no_line)
    then show ?thesis by simp
  next
    case (Some i)
    let ?t = "handleSubmit_enqueue (take i (buffer p)) (p\<lparr>buffer := drop (i + 1) (buffer p)\<rparr>)"
    from Some have less: "i < length (buffer p)" by (rule indexOf_less)
    have left: "handleSubmit_lines p = handleSubmit_lines ?t"
      using Some by (simp add: handleSubmit_lines.simps [of p])
    have "indexOf (buffer p @ x) (CHR 0x0A) = Some i"
      using Some by (rule indexOf_append)
    then have "handleSubmit_lines (p\<lparr>buffer := buffer p @ x\<rparr>)
               = handleSubmit_lines
                   (handleSubmit_enqueue (take i (buffer p))
                      (p\<lparr>buffer := drop (i + 1) (buffer p) @ x\<rparr>))"
      using less by (simp add: handleSubmit_lines.simps [of "p\<lparr>buffer := buffer p @ x\<rparr>"])
    also have "handleSubmit_enqueue (take i (buffer p)) (p\<lparr>buffer := drop (i + 1) (buffer p) @ x\<rparr>)
               = ?t\<lparr>buffer := buffer ?t @ x\<rparr>"
      by (simp add: handleSubmit_enqueue_buffer_update)
    also have "handleSubmit_lines (?t\<lparr>buffer := buffer ?t @ x\<rparr>)
               = handleSubmit_lines
                   ((handleSubmit_lines ?t)\<lparr>buffer := buffer (handleSubmit_lines ?t) @ x\<rparr>)"
      using "1.IH" [OF Some] by simp
    finally show ?thesis using left by simp
  qed
qed

lemma handleSubmit_chunk_append:
  "handleSubmit_chunk y (handleSubmit_chunk x p) = handleSubmit_chunk (x @ y) p"
proof -
  let ?u = "p\<lparr>buffer := buffer p @ x\<rparr>"
  have "handleSubmit_chunk y (handleSubmit_chunk x p)
        = handleSubmit_lines ((handleSubmit_lines ?u)\<lparr>buffer := buffer (handleSubmit_lines ?u) @ y\<rparr>)"
    by (simp add: handleSubmit_chunk_def)
  also have "\<dots> = handleSubmit_lines (?u\<lparr>buffer := buffer ?u @ y\<rparr>)"
    by (rule handleSubmit_lines_append)
  also have "\<dots> = handleSubmit_chunk (x @ y) p"
    by (simp add: handleSubmit_chunk_def)
  finally show ?thesis .
qed

lemma handleSubmit_chunks_after_chunk:
  "fold handleSubmit_chunk chunks (handleSubmit_chunk x p) = handleSubmit_chunk (x @ concat chunks) p"
  by (induction chunks arbitrary: x) (simp_all add: handleSubmit_chunk_append)

lemma handleSubmit_pending_buffer [simp]: "buffer (handleSubmit_pending s) = buffer s"
  by (simp add: handleSubmit_pending_def Submit.defs Pending.defs)

lemma handleSubmit_batch_concat:
  assumes "indexOf (buffer s) (CHR 0x0A) = None"
  shows "handleSubmit_batch chunks s = handleSubmit_batch [concat chunks] s"
proof (cases chunks)
  case Nil
  have "handleSubmit_chunk [] (handleSubmit_pending s) = handleSubmit_pending s"
    using assms by (simp add: handleSubmit_chunk_def handleSubmit_lines_no_line)
  with Nil show ?thesis
    by (simp add: handleSubmit_batch_def)
next
  case (Cons x xs)
  then show ?thesis
    by (simp add: handleSubmit_batch_def handleSubmit_chunks_after_chunk)
qed

section \<open>Line processing\<close>

text \<open>A group that is one complete line is that line processed and rendered alone.\<close>

lemma indexOf_first:
  "indexOf b c = None \<Longrightarrow> indexOf (b @ c # r) c = Some (length b)"
  by (induction b) (auto split: if_splits)

lemma handleSubmit_batch_one_line:
  assumes "indexOf l (CHR 0x0A) = None" and "buffer s = []"
  shows "handleSubmit_batch [l @ [CHR 0x0A]] s = handleSubmit_line l s"
proof -
  let ?p = "handleSubmit_pending s"
  let ?u = "?p\<lparr>buffer := l @ [CHR 0x0A]\<rparr>"
  have empty: "?p\<lparr>buffer := []\<rparr> = ?p"
    using assms(2) by (simp add: handleSubmit_pending_def Submit.defs Pending.defs)
  have "indexOf (buffer ?u) (CHR 0x0A) = Some (length l)"
    using indexOf_first [OF assms(1), of "[]"] by simp
  then have "handleSubmit_lines ?u = handleSubmit_lines (handleSubmit_enqueue l (?p\<lparr>buffer := []\<rparr>))"
    by (simp add: handleSubmit_lines.simps [of ?u])
  also have "\<dots> = handleSubmit_enqueue l ?p"
    unfolding empty using assms(2) by (intro handleSubmit_lines_no_line) simp
  finally show ?thesis
    using assms(2) by (simp add: handleSubmit_batch_def handleSubmit_chunk_def handleSubmit_line_def)
qed

text \<open>The update of a marker line does the same whenever React runs it.\<close>

lemma runUpdate_AddFile_any: "runUpdate cur (AddFile n) a = runUpdate cur' (AddFile n) a"
  by simp

text \<open>
  C2. Marker lines. A line that starts with \<open>>>>FILE:\<close> and whose remainder trims to a
  non-empty name appends an entry with that name and empty content at the end of the files
  when no entry has the name, and leaves the files as they are (no second entry, no content
  reset) when one has; either way the name becomes the current target and the active file.
\<close>

theorem marker_line_rule:
  assumes "startsWith line ''>>>FILE:''"
    and "trim (drop (length ''>>>FILE:'') line) = name"
    and "name \<noteq> []"
  shows "(\<not> list_ex (\<lambda>f. fileName f = name) (files s) \<longrightarrow>
            files (handleSubmit_line line s) = files s @ [\<lparr>fileName = name, content = []\<rparr>])
       \<and> (list_ex (\<lambda>f. fileName f = name) (files s) \<longrightarrow>
            files (handleSubmit_line line s) = files s)
       \<and> currentFileName (handleSubmit_line line s) = Some name
       \<and> activeFileName (handleSubmit_line line s) = name"
  using assms
  by (simp add: handleSubmit_line_def handleSubmit_enqueue_def handleSubmit_flush_def
        handleSubmit_pending_def Submit.defs Pending.defs)

theorem marker_line_rule_witness:
  "files (handleSubmit_line ''>>>FILE: b.css''
            (handleSubmit_line ''>>>FILE: a.js'' (handleSubmit_begin (App_init None))))
     = [\<lparr>fileName = ''a.js'', content = []\<rparr>, \<lparr>fileName = ''b.css'', content = []\<rparr>]
   \<and> files (handleSubmit_line ''>>>FILE: a.js''
              (handleSubmit_line ''>>>FILE: a.js'' (handleSubmit_begin (App_init None))))
     = [\<lparr>fileName = ''a.js'', content = []\<rparr>]
   \<and> currentFileName (handleSubmit_line ''>>>FILE: a.js'' (handleSubmit_begin (App_init None))) = Some ''a.js''
   \<and> activeFileName (handleSubmit_line ''>>>FILE: a.js'' (handleSubmit_begin (App_init None))) = ''a.js''"
proof -
  let ?s0 = "handleSubmit_begin (App_init None)"
  let ?s1 = "handleSubmit_line ''>>>FILE: a.js'' ?s0"
  have files0: "files ?s0 = []"
    by (simp add: handleSubmit_begin_def App.defs Submit.defs)
  have a1: "startsWith ''>>>FILE: a.js'' ''>>>FILE:''"
    by (simp add: startsWith_def)
  have a2: "trim (drop (length ''>>>FILE:'') ''>>>FILE: a.js'') = ''a.js''"
    by (simp add: trim_def isWhiteSpace_def)
  have b1: "startsWith ''>>>FILE: b.css'' ''>>>FILE:''"
    by (simp add: startsWith_def)
  have b2: "trim (drop (length ''>>>FILE:'') ''>>>FILE: b.css'') = ''b.css''"
    by (simp add: trim_def isWhiteSpace_def)
  have first: "files ?s1 = [\<lparr>fileName = ''a.js'', content = []\<rparr>]"
    using marker_line_rule [OF a1 a2, of ?s0] files0 by simp
  have "files (handleSubmit_line ''>>>FILE: b.css'' ?s1)
        = [\<lparr>fileName = ''a.js'', content = []\<rparr>, \<lparr>fileName = ''b.css'', content = []\<rparr>]"
    using marker_line_rule [OF b1 b2, of ?s1] first by simp
  moreover have "files (handleSubmit_line ''>>>FILE: a.js'' ?s1) = [\<lparr>fileName = ''a.js'', content = []\<rparr>]"
    using marker_line_rule [OF a1 a2, of ?s1] first by simp
  moreover have "currentFileName ?s1 = Some ''a.js'' \<and> activeFileName ?s1 = ''a.js''"
    using marker_line_rule [OF a1 a2, of ?s0] by simp
  ultimately show ?thesis by simp
qed

text \<open>
  A marker with an empty name assigns nothing and queues nothing.
\<close>

lemma handleSubmit_enqueue_empty_name:
  assumes "startsWith m ''>>>FILE:''"
    and "trim (drop (length ''>>>FILE:'') m) = []"
  shows "handleSubmit_enqueue m p = p"
  using assms by (simp add: handleSubmit_enqueue_def)

text \<open>
  C4. A marker with an empty name, and the lines after it. The marker itself changes
  nothing, but the content line \<open>y\<close> after it is not kept for the current target
  \<open>a.js\<close>: when the marker of \<open>b.css\<close> arrives in the same group, the update of \<open>y\<close>
  looks for \<open>b.css\<close>, which has no entry yet, and \<open>y\<close> is lost.
\<close>

theorem empty_name_marker_line_lost:
  "files (handleSubmit_batch
            [''>>>FILE: a.js'' @ [CHR 0x0A] @ ''>>>FILE:   '' @ [CHR 0x0A] @ ''y'' @ [CHR 0x0A] @ ''>>>FILE: b.css'' @ [CHR 0x0A]]
            (handleSubmit_begin ((App_init None)\<lparr>prompt := ''a page''\<rparr>)))
   = [\<lparr>fileName = ''a.js'', content = []\<rparr>, \<lparr>fileName = ''b.css'', content = []\<rparr>]"
  by code_simp

text \<open>
  C5. The remainder. After the loop, with a current target and a non-empty buffer, the
  buffer is appended to the content of the current target as it is, with no line feed
  added, and nothing else changes; with no current target, or with an empty buffer, the
  state stays as it is.
\<close>

theorem final_remainder_rule:
  "(currentFileName s = Some t \<and> t \<noteq> [] \<and> buffer s \<noteq> [] \<longrightarrow>
      handleSubmit_rest s
      = s\<lparr>files := map (\<lambda>f. if fileName f = t then f\<lparr>content := content f @ buffer s\<rparr> else f)
                       (files s)\<rparr>)
   \<and> (currentFileName s = None \<or> buffer s = [] \<longrightarrow> handleSubmit_rest s = s)"
  by (simp add: handleSubmit_rest_def split: option.splits)

theorem final_remainder_rule_witness:
  "files (handleSubmit_rest
     \<lparr>prompt = ''a page'', files = [\<lparr>fileName = ''a.js'', content = ''x''\<rparr>, \<lparr>fileName = ''b.css'', content = ''p{}''\<rparr>],
       activeFileName = ''a.js'', isLoading = True, error = None, snippets = [],
       isSnippetsLoading = False, snippetsError = None,
       currentFileName = Some ''a.js'', buffer = ''tail''\<rparr>)
     = [\<lparr>fileName = ''a.js'', content = ''xtail''\<rparr>, \<lparr>fileName = ''b.css'', content = ''p{}''\<rparr>]
   \<and> handleSubmit_rest (handleSubmit_begin (App_init None)) = handleSubmit_begin (App_init None)"
proof -
  have none: "currentFileName (handleSubmit_begin (App_init None)) = None"
    by (simp add: handleSubmit_begin_def App.defs Submit.defs)
  show ?thesis
    using final_remainder_rule [where t = "''a.js''" and s = "\<lparr>prompt = ''a page'', files = [\<lparr>fileName = ''a.js'', content = ''x''\<rparr>, \<lparr>fileName = ''b.css'', content = ''p{}''\<rparr>],
       activeFileName = ''a.js'', isLoading = True, error = None, snippets = [],
       isSnippetsLoading = False, snippetsError = None,
       currentFileName = Some ''a.js'', buffer = ''tail''\<rparr>"]
      final_remainder_rule [where s = "handleSubmit_begin (App_init None)"] none
    by simp
qed

text \<open>
  C9. A content line and the other entries. The line \<open>p{}\<close> is processed while the current
  target is \<open>b.css\<close>; the marker of \<open>a.js\<close> comes back in the same group, and when React
  runs the update the line goes to \<open>a.js\<close>, an entry other than the target of the line,
  while \<open>b.css\<close> stays empty.
\<close>

theorem content_line_other_entry:
  "files (handleSubmit_batch
            [''>>>FILE: a.js'' @ [CHR 0x0A] @ ''>>>FILE: b.css'' @ [CHR 0x0A] @ ''p{}'' @ [CHR 0x0A] @ ''>>>FILE: a.js'' @ [CHR 0x0A]]
            (handleSubmit_begin ((App_init None)\<lparr>prompt := ''a page''\<rparr>)))
   = [\<lparr>fileName = ''a.js'', content = ''p{}'' @ [CHR 0x0A]\<rparr>, \<lparr>fileName = ''b.css'', content = []\<rparr>]"
  by code_simp

text \<open>
  C1. Chunk boundaries. The two-file stream of the specification gives other files as one
  chunk than as one code unit per chunk with a render after each: in one chunk the line of
  \<open>a.js\<close> is queued before the marker of \<open>b.css\<close> and run after it, when the current
  target is \<open>b.css\<close>, so \<open>a.js\<close> stays empty.
\<close>

theorem chunk_boundary_dependence:
  "files (handleSubmit_rest (handleSubmit_stream
            [[''>>>FILE: a.js'' @ [CHR 0x0A] @ ''console.log(1);'' @ [CHR 0x0A] @ ''>>>FILE: b.css'' @ [CHR 0x0A] @ ''body{}'' @ [CHR 0x0A]]]
            (handleSubmit_begin ((App_init None)\<lparr>prompt := ''a page''\<rparr>))))
     = [\<lparr>fileName = ''a.js'', content = []\<rparr>, \<lparr>fileName = ''b.css'', content = ''body{}'' @ [CHR 0x0A]\<rparr>]
   \<and> files (handleSubmit_rest (handleSubmit_stream
            (map (\<lambda>c. [[c]]) (''>>>FILE: a.js'' @ [CHR 0x0A] @ ''console.log(1);'' @ [CHR 0x0A] @ ''>>>FILE: b.css'' @ [CHR 0x0A] @ ''body{}'' @ [CHR 0x0A]))
            (handleSubmit_begin ((App_init None)\<lparr>prompt := ''a page''\<rparr>))))
     = [\<lparr>fileName = ''a.js'', content = ''console.log(1);'' @ [CHR 0x0A]\<rparr>,
        \<lparr>fileName = ''b.css'', content = ''body{}'' @ [CHR 0x0A]\<rparr>]
   \<and> handleSubmit (Stream [[''>>>FILE: a.js'' @ [CHR 0x0A] @ ''console.log(1);'' @ [CHR 0x0A] @ ''>>>FILE: b.css'' @ [CHR 0x0A] @ ''body{}'' @ [CHR 0x0A]]] None) ((App_init None)\<lparr>prompt := ''a page''\<rparr>)
     \<noteq> handleSubmit (Stream (map (\<lambda>c. [[c]]) (''>>>FILE: a.js'' @ [CHR 0x0A] @ ''console.log(1);'' @ [CHR 0x0A] @ ''>>>FILE: b.css'' @ [CHR 0x0A] @ ''body{}'' @ [CHR 0x0A])) None) ((App_init None)\<lparr>prompt := ''a page''\<rparr>)"
  by code_simp

section \<open>Failures\<close>

text \<open>Every generation that starts ends with a Promise in the state \<open>files\<close>.\<close>

lemma handleSubmit_files_promise:
  assumes "trim (prompt a) \<noteq> []" and "\<not> isLoading a"
  shows "\<exists>a'. handleSubmit g a = FilesPromise a'"
  using assms by (cases g) (simp add: handleSubmit_def Let_def)

text \<open>
  C6. A transport failure. The stream throws after one group that built \<open>a.js\<close>. The
  \<open>catch\<close> block sets the error message, but the formatting updater of \<open>finally\<close> runs
  on this path too: the state \<open>files\<close> is then the Promise that the updater returned
  for the partial files, not the partial files.
\<close>

theorem transport_failure_files_promise:
  "handleSubmit (Stream [[''>>>FILE: a.js'' @ [CHR 0x0A] @ ''x'' @ [CHR 0x0A]]] (Some (Error ''timeout''))) ((App_init None)\<lparr>prompt := ''a page''\<rparr>)
   = FilesPromise
       (((App_init None)\<lparr>prompt := ''a page''\<rparr>)\<lparr>files := [\<lparr>fileName = ''a.js'', content = ''x'' @ [CHR 0x0A]\<rparr>],
           activeFileName := ''a.js'',
           error := Some ''Failed to generate code: timeout. Please check your API key and try again.''\<rparr>)"
  by code_simp

text \<open>
  C10. A failed snippet fetch. Every fetch clears the snippets first. When the request
  throws, when the answer does not parse, or when it has no array of snippets, the fetch
  ends with the snippets empty and the error message set; so whenever a fetch leaves an
  error, it leaves no snippets, whatever the snippets were before.
\<close>

theorem snippet_failure_clears_snippets:
  "snippets (handleFetchSnippets (RequestThrows e) a) = []
   \<and> snippetsError (handleFetchSnippets (RequestThrows e) a)
       = Some (''Failed to fetch snippets: '' @ errorMessage e)
   \<and> snippets (handleFetchSnippets (ParseThrows e) a) = []
   \<and> snippetsError (handleFetchSnippets (ParseThrows e) a)
       = Some (''Failed to fetch snippets: '' @ errorMessage e)
   \<and> snippets (handleFetchSnippets (Parsed None) a) = []
   \<and> snippetsError (handleFetchSnippets (Parsed None) a)
       = Some ''Failed to fetch snippets: Invalid snippet format from API.''
   \<and> (snippetsError (handleFetchSnippets r a) \<noteq> None \<longrightarrow>
        snippets (handleFetchSnippets r a) = [])"
proof -
  have "snippetsError (handleFetchSnippets r a) \<noteq> None \<longrightarrow> snippets (handleFetchSnippets r a) = []"
    by (cases "handleFetchSnippets_try r") (simp_all add: handleFetchSnippets_def)
  then show ?thesis
    by (simp add: handleFetchSnippets_def)
qed

theorem snippet_failure_clears_snippets_witness:
  "snippetsError (handleFetchSnippets (Parsed None) ((App_init None)\<lparr>snippets := [''old()'']\<rparr>))
     = Some ''Failed to fetch snippets: Invalid snippet format from API.''
   \<and> snippets (handleFetchSnippets (Parsed None) ((App_init None)\<lparr>snippets := [''old()'']\<rparr>)) = []"
  using snippet_failure_clears_snippets
    [of "NonError" "(App_init None)\<lparr>snippets := [''old()'']\<rparr>" "Parsed None"]
  by simp

section \<open>The active file\<close>


lemma reconcile_files [simp]: "files (reconcile a) = files a"
  by (simp add: reconcile_def)




section \<open>Creating a file\<close>

lemma list_ex_fileName: "list_ex (\<lambda>f. fileName f = n) fs = (n \<in> set (fileNames fs))"
  by (auto simp: list_ex_iff fileNames_def)

lemma list_ex_map: "list_ex P (map g xs) = list_ex (\<lambda>x. P (g x)) xs"
  by (induction xs) simp_all

lemma toLowerCase_Nil [simp]: "(toLowerCase s = []) = (s = [])"
  by (simp add: toLowerCase_def)

text \<open>
  C8. Validation of a new file name. When the trimmed name is empty, creation fails with
  the empty-name message; when it is not empty and some file has the same name up to the
  case of letters, creation fails with the duplicate-name message; in both cases the state
  of the application, and so the files, is unchanged. Otherwise an entry with the trimmed
  name and empty content is appended and becomes the active file. The code checks the
  empty name first, which decides only when a file already has the empty name: in a set
  with no such file, a file of the same name up to case gives the duplicate-name message
  whatever the input.
\<close>

theorem createFile_validation:
  "(trim name = [] \<longrightarrow> createFile name a = (Some ''File name cannot be empty.'', a))
   \<and> (trim name \<noteq> [] \<and>
        list_ex (\<lambda>f. toLowerCase (fileName f) = toLowerCase (trim name)) (files a) \<longrightarrow>
        createFile name a
        = (Some (''A file named '' @ [CHR 0x22] @ trim name @ [CHR 0x22] @ '' already exists.''), a))
   \<and> ([] \<notin> set (fileNames (files a)) \<and>
        list_ex (\<lambda>f. toLowerCase (fileName f) = toLowerCase (trim name)) (files a) \<longrightarrow>
        createFile name a
        = (Some (''A file named '' @ [CHR 0x22] @ trim name @ [CHR 0x22] @ '' already exists.''), a))
   \<and> (trim name \<noteq> [] \<and>
        \<not> list_ex (\<lambda>f. toLowerCase (fileName f) = toLowerCase (trim name)) (files a) \<longrightarrow>
        createFile name a
        = (None, a\<lparr>files := files a @ [\<lparr>fileName = trim name, content = []\<rparr>],
                     activeFileName := trim name\<rparr>))"
proof -
  have nonempty: "trim name \<noteq> []"
    if "[] \<notin> set (fileNames (files a))"
      and "list_ex (\<lambda>f. toLowerCase (fileName f) = toLowerCase (trim name)) (files a)"
  proof
    assume "trim name = []"
    with that(2) have "list_ex (\<lambda>f. fileName f = []) (files a)"
      by (simp add: toLowerCase_def)
    with that(1) show False by (simp add: list_ex_fileName)
  qed
  have cases: "(trim name = [] \<longrightarrow> createFile name a = (Some ''File name cannot be empty.'', a))
   \<and> (trim name \<noteq> [] \<and>
        list_ex (\<lambda>f. toLowerCase (fileName f) = toLowerCase (trim name)) (files a) \<longrightarrow>
        createFile name a
        = (Some (''A file named '' @ [CHR 0x22] @ trim name @ [CHR 0x22] @ '' already exists.''), a))
   \<and> (trim name \<noteq> [] \<and>
        \<not> list_ex (\<lambda>f. toLowerCase (fileName f) = toLowerCase (trim name)) (files a) \<longrightarrow>
        createFile name a
        = (None, a\<lparr>files := files a @ [\<lparr>fileName = trim name, content = []\<rparr>],
                     activeFileName := trim name\<rparr>))"
    by (simp add: createFile_def NewFileModal_handleSubmit_def handleCreateFile_def Let_def
          list_ex_map)
  with nonempty show ?thesis by blast
qed

theorem createFile_validation_witness:
  "fst (createFile ''  A.JS '' (App_init (Some [\<lparr>fileName = ''a.js'', content = ''x''\<rparr>, \<lparr>fileName = ''b.css'', content = ''p{}''\<rparr>])))
     = Some (''A file named '' @ [CHR 0x22] @ ''A.JS'' @ [CHR 0x22] @ '' already exists.'')
   \<and> snd (createFile ''  A.JS '' (App_init (Some [\<lparr>fileName = ''a.js'', content = ''x''\<rparr>, \<lparr>fileName = ''b.css'', content = ''p{}''\<rparr>]))) = (App_init (Some [\<lparr>fileName = ''a.js'', content = ''x''\<rparr>, \<lparr>fileName = ''b.css'', content = ''p{}''\<rparr>]))
   \<and> createFile ''   '' (App_init (Some [\<lparr>fileName = ''a.js'', content = ''x''\<rparr>, \<lparr>fileName = ''b.css'', content = ''p{}''\<rparr>])) = (Some ''File name cannot be empty.'', (App_init (Some [\<lparr>fileName = ''a.js'', content = ''x''\<rparr>, \<lparr>fileName = ''b.css'', content = ''p{}''\<rparr>])))
   \<and> files (snd (createFile '' c.html'' (App_init (Some [\<lparr>fileName = ''a.js'', content = ''x''\<rparr>, \<lparr>fileName = ''b.css'', content = ''p{}''\<rparr>]))))
     = [\<lparr>fileName = ''a.js'', content = ''x''\<rparr>, \<lparr>fileName = ''b.css'', content = ''p{}''\<rparr>,
        \<lparr>fileName = ''c.html'', content = []\<rparr>]
   \<and> activeFileName (snd (createFile '' c.html'' (App_init (Some [\<lparr>fileName = ''a.js'', content = ''x''\<rparr>, \<lparr>fileName = ''b.css'', content = ''p{}''\<rparr>])))) = ''c.html''"
proof -
  let ?a = "(App_init (Some [\<lparr>fileName = ''a.js'', content = ''x''\<rparr>, \<lparr>fileName = ''b.css'', content = ''p{}''\<rparr>]))"
  have fa: "files ?a = [\<lparr>fileName = ''a.js'', content = ''x''\<rparr>, \<lparr>fileName = ''b.css'', content = ''p{}''\<rparr>]"
    by (simp add: App_init_def)
  have t1: "trim ''  A.JS '' = ''A.JS''" and t2: "trim ''   '' = []" and t3: "trim '' c.html'' = ''c.html''"
    by (simp_all add: trim_def isWhiteSpace_def)
  have low: "toLowerCase ''A.JS'' = ''a.js''" "toLowerCase ''a.js'' = ''a.js''"
    "toLowerCase ''b.css'' = ''b.css''" "toLowerCase ''c.html'' = ''c.html''"
    by code_simp+
  have "createFile ''  A.JS '' ?a
        = (Some (''A file named '' @ [CHR 0x22] @ ''A.JS'' @ [CHR 0x22] @ '' already exists.''), ?a)"
    using createFile_validation [of "''  A.JS ''" ?a] fa t1 low by simp
  moreover have "createFile ''   '' ?a = (Some ''File name cannot be empty.'', ?a)"
    using createFile_validation [of "''   ''" ?a] t2 by simp
  moreover have "createFile '' c.html'' ?a
        = (None, ?a\<lparr>files := files ?a @ [\<lparr>fileName = ''c.html'', content = []\<rparr>],
                      activeFileName := ''c.html''\<rparr>)"
    using createFile_validation [of "'' c.html''" ?a] fa t3 low by simp
  ultimately show ?thesis using fa by simp
qed

section \<open>Composition and the specification\<close>

text \<open>\<open>search\<close> finds the leftmost occurrence.\<close>

lemma startsWith_split: "startsWith s p \<Longrightarrow> s = p @ drop (length p) s"
  by (metis append_take_drop_id startsWith_def)

lemma search_Some_drop:
  "search s p = Some i \<Longrightarrow> drop i s = p @ drop (i + length p) s"
proof (induction s arbitrary: i)
  case Nil
  then show ?case by (simp split: if_splits)
next
  case (Cons x xs)
  show ?case
  proof (cases "startsWith (x # xs) p")
    case True
    with Cons.prems have "i = 0" by simp
    with startsWith_split [OF True] show ?thesis by simp
  next
    case False
    with Cons.prems obtain j where "search xs p = Some j" and "i = Suc j"
      by auto
    with Cons.IH [of j] show ?thesis by simp
  qed
qed

lemma search_Some_first:
  "search s p = Some i \<Longrightarrow> j < i \<Longrightarrow> \<not> startsWith (drop j s) p"
proof (induction s arbitrary: i j)
  case Nil
  then show ?case by (simp split: if_splits)
next
  case (Cons x xs)
  from Cons.prems have no: "\<not> startsWith (x # xs) p"
    by (auto split: if_splits)
  with Cons.prems obtain k where k: "search xs p = Some k" "i = Suc k"
    by auto
  show ?case
  proof (cases j)
    case 0
    with no show ?thesis by simp
  next
    case (Suc j')
    with Cons.prems k Cons.IH [of k j'] show ?thesis by simp
  qed
qed

text \<open>A replacement text without a dollar pattern is inserted as it is.\<close>

lemma getSubstitution_no_pattern:
  "\<not> dollar_pattern t \<Longrightarrow> getSubstitution m s p t = t"
  by (induction m s p t rule: getSubstitution.induct) (auto simp: dollar_special_def)

lemma dollar_pattern_append:
  "dollar_pattern (xs @ ys) =
     (dollar_pattern xs \<or> dollar_pattern ys
      \<or> (xs \<noteq> [] \<and> ys \<noteq> [] \<and> last xs = CHR ''$'' \<and> dollar_special (hd ys)))"
proof (induction xs)
  case Nil
  then show ?case by simp
next
  case (Cons c xs)
  show ?case
  proof (cases xs)
    case Nil
    then show ?thesis by (cases ys) auto
  next
    case (Cons d t)
    with Cons.IH show ?thesis by auto
  qed
qed

lemma no_dollar_no_pattern: "CHR ''$'' \<notin> set xs \<Longrightarrow> \<not> dollar_pattern xs"
  by (induction xs rule: dollar_pattern.induct) auto

lemma dollar_pattern_plain_right:
  "plain sep \<Longrightarrow> dollar_pattern (xs @ sep) = dollar_pattern xs"
  by (auto simp: dollar_pattern_append plain_def no_dollar_no_pattern)

lemma dollar_pattern_plain_left:
  "plain sep \<Longrightarrow> dollar_pattern (sep @ ys) = dollar_pattern ys"
  by (auto simp: dollar_pattern_append plain_def no_dollar_no_pattern dest: last_in_set)

lemma dollar_pattern_plain_between:
  "plain sep \<Longrightarrow> dollar_pattern (xs @ sep @ ys) = (dollar_pattern xs \<or> dollar_pattern ys)"
proof -
  assume sep: "plain sep"
  then have "hd (sep @ ys) = hd sep" and "sep @ ys \<noteq> []"
    by (simp_all add: plain_def)
  with sep show ?thesis
    using dollar_pattern_append [of xs "sep @ ys"] dollar_pattern_plain_left [OF sep, of ys]
    by (auto simp: plain_def)
qed

lemma join_no_pattern:
  assumes "plain sep" and "\<forall>x \<in> set xs. \<not> dollar_pattern x"
  shows "\<not> dollar_pattern (join sep xs)"
  using assms
  by (induction sep xs rule: join.induct) (simp_all add: dollar_pattern_plain_between)

text \<open>
  What stands around a collected text in the replacement goes through as it is: a text
  before it that holds no dollar, and a plain text after it.
\<close>

lemma getSubstitution_prefix:
  "CHR ''$'' \<notin> set pre \<Longrightarrow> getSubstitution m s p (pre @ ys) = pre @ getSubstitution m s p ys"
proof (induction pre)
  case Nil
  then show ?case by simp
next
  case (Cons c pre)
  then show ?case by (cases "pre @ ys") auto
qed

lemma plain_append: "plain suf \<Longrightarrow> CHR ''$'' \<notin> set tag \<Longrightarrow> plain (suf @ tag)"
  by (simp add: plain_def)

lemma getSubstitution_suffix:
  assumes "plain suf"
  shows "getSubstitution m s p (xs @ suf) = getSubstitution m s p xs @ suf"
proof (induction m s p xs rule: getSubstitution.induct)
  case (1 m s p)
  from assms show ?case
    by (simp add: plain_def getSubstitution_no_pattern no_dollar_no_pattern)
next
  case (2 m s p c)
  from assms obtain d t where suf: "suf = d # t" and d: "\<not> dollar_special d"
    by (cases suf) (auto simp: plain_def)
  from assms have "getSubstitution m s p suf = suf"
    by (simp add: plain_def getSubstitution_no_pattern no_dollar_no_pattern)
  with suf d show ?case by (auto simp: dollar_special_def)
next
  case (3 m s p c d t)
  then show ?case by auto
qed

lemma replace_element:
  assumes "CHR ''$'' \<notin> set pre" and "plain suf" and "plain tag"
  shows "replace doc tag (pre @ joined @ suf @ tag)
         = inject_before tag (pre @ substituted doc tag joined @ suf) doc"
proof (cases "search doc tag")
  case None
  then show ?thesis by (simp add: replace_def inject_before_def)
next
  case (Some i)
  from assms have "plain (suf @ tag)"
    by (simp add: plain_append plain_def)
  then have "getSubstitution tag doc i (joined @ suf @ tag) = getSubstitution tag doc i joined @ suf @ tag"
    by (rule getSubstitution_suffix)
  with assms(1) have "getSubstitution tag doc i (pre @ joined @ suf @ tag)
                      = pre @ getSubstitution tag doc i joined @ suf @ tag"
    by (simp add: getSubstitution_prefix)
  with Some search_Some_drop [OF Some] show ?thesis
    by (simp add: replace_def inject_before_def substituted_def)
qed

lemma substituted_no_pattern:
  "\<not> dollar_pattern joined \<Longrightarrow> substituted doc tag joined = joined"
  by (simp add: substituted_def getSubstitution_no_pattern split: option.splits)

text \<open>
  C3 as the specification states it fails: with a style sheet that is empty, the
  specification injects nothing, and the code injects an empty style element.
\<close>

theorem compose_injection_counterexample:
  "htmlContent
     [\<lparr>fileName = ''index.html'', content = ''<head></head><body></body>''\<rparr>,
      \<lparr>fileName = ''style.css'', content = []\<rparr>]
     = ''<head><style></style></head><body></body>''
   \<and> compose_claimed
     [\<lparr>fileName = ''index.html'', content = ''<head></head><body></body>''\<rparr>,
      \<lparr>fileName = ''style.css'', content = []\<rparr>]
     = ''<head></head><body></body>''
   \<and> htmlContent
     [\<lparr>fileName = ''index.html'', content = ''<head></head><body></body>''\<rparr>,
      \<lparr>fileName = ''style.css'', content = []\<rparr>]
     \<noteq> compose_claimed
     [\<lparr>fileName = ''index.html'', content = ''<head></head><body></body>''\<rparr>,
      \<lparr>fileName = ''style.css'', content = []\<rparr>]"
proof -
  have code: "htmlContent
     [\<lparr>fileName = ''index.html'', content = ''<head></head><body></body>''\<rparr>,
      \<lparr>fileName = ''style.css'', content = []\<rparr>]
     = ''<head><style></style></head><body></body>''"
    by code_simp
  have claim: "compose_claimed
     [\<lparr>fileName = ''index.html'', content = ''<head></head><body></body>''\<rparr>,
      \<lparr>fileName = ''style.css'', content = []\<rparr>]
     = ''<head></head><body></body>''"
    by code_simp
  show ?thesis
    unfolding code claim by simp
qed

text \<open>
  C3, amended. With a base file (the first whose name ends in \<open>.html\<close>), the contents of
  the files whose names end in \<open>.css\<close> are joined, in order, with line feeds and, if and
  only if there is such a file (even when the joined text is empty), a style element is put
  in front of the first \<open></head>\<close> of the base document, which stays as it is when it has
  none; then the contents of the files whose names end in \<open>.js\<close> are joined with a
  semicolon and a line feed and, if and only if there is such a file, a script element is
  put in front of the first \<open></body>\<close> of the document so far, or nowhere when it has
  none. This holds for all files. The text inside each element is what \<open>replace\<close> makes of
  the joined contents, and it is the joined contents themselves whenever no collected
  content holds a dollar sign followed by a dollar sign, an ampersand, a backquote or an
  apostrophe.
\<close>

theorem compose_injection_rule:
  "htmlContent fs = compose_spec (\<lambda>collected joined. collected \<noteq> []) substituted fs
   \<and> ((\<forall>f \<in> set fs. endsWith (fileName f) ''.css'' \<or> endsWith (fileName f) ''.js''
          \<longrightarrow> \<not> dollar_pattern (content f))
        \<longrightarrow> htmlContent fs = compose_amended fs)"
proof -
  let ?cssFiles = "filter (\<lambda>f. endsWith (fileName f) ''.css'') fs"
  let ?jsFiles = "filter (\<lambda>f. endsWith (fileName f) ''.js'') fs"
  let ?css = "join [CHR 0x0A] (map content ?cssFiles)"
  let ?js = "join ('';'' @ [CHR 0x0A]) (map content ?jsFiles)"
  have plains: "plain [CHR 0x0A]" "plain ('';'' @ [CHR 0x0A])" "plain ''</style>''"
    "plain ''</script>''" "plain ''</head>''" "plain ''</body>''"
    by (simp_all add: plain_def dollar_special_def)
  have head: "replace doc ''</head>'' (''<style>'' @ ?css @ ''</style></head>'')
              = inject_before ''</head>'' (''<style>'' @ substituted doc ''</head>'' ?css @ ''</style>'') doc"
    for doc
    using replace_element [OF _ plains(3) plains(5), of "''<style>''" doc ?css] by simp
  have body: "replace doc ''</body>'' (''<script>'' @ ?js @ ''</script></body>'')
              = inject_before ''</body>'' (''<script>'' @ substituted doc ''</body>'' ?js @ ''</script>'') doc"
    for doc
    using replace_element [OF _ plains(4) plains(6), of "''<script>''" doc ?js] by simp
  have general: "htmlContent fs = compose_spec (\<lambda>collected joined. collected \<noteq> []) substituted fs"
  proof (cases "find (\<lambda>f. endsWith (fileName f) ''.html'') fs")
    case None
    then show ?thesis by (simp add: htmlContent_def compose_spec_def)
  next
    case (Some base)
    show ?thesis
      unfolding htmlContent_def compose_spec_def Some option.case Let_def head body
      by simp
  qed
  have exact: "htmlContent fs = compose_amended fs"
    if ok: "\<forall>f \<in> set fs. endsWith (fileName f) ''.css'' \<or> endsWith (fileName f) ''.js''
              \<longrightarrow> \<not> dollar_pattern (content f)"
  proof -
    have css: "\<not> dollar_pattern ?css"
      using ok by (intro join_no_pattern plains) simp
    have js: "\<not> dollar_pattern ?js"
      using ok by (intro join_no_pattern plains) simp
    have "compose_spec (\<lambda>collected joined. collected \<noteq> []) substituted fs = compose_amended fs"
      unfolding compose_amended_def compose_spec_def Let_def
      by (cases "find (\<lambda>f. endsWith (fileName f) ''.html'') fs")
         (simp_all only: option.case substituted_no_pattern [OF css] substituted_no_pattern [OF js])
    with general show ?thesis by simp
  qed
  from general exact show ?thesis by blast
qed

theorem compose_injection_rule_witness:
  "htmlContent
     [\<lparr>fileName = ''index.html'', content = ''<head></head><body></body>''\<rparr>,
      \<lparr>fileName = ''style.css'', content = ''a{}''\<rparr>,
      \<lparr>fileName = ''script.js'', content = ''x()''\<rparr>]
   = ''<head><style>a{}</style></head><body><script>x()</script></body>''"
proof -
  let ?fs = "[\<lparr>fileName = ''index.html'', content = ''<head></head><body></body>''\<rparr>,
      \<lparr>fileName = ''style.css'', content = ''a{}''\<rparr>,
      \<lparr>fileName = ''script.js'', content = ''x()''\<rparr>]"
  have ok: "\<forall>f \<in> set ?fs. endsWith (fileName f) ''.css'' \<or> endsWith (fileName f) ''.js''
             \<longrightarrow> \<not> dollar_pattern (content f)"
    by simp
  have "compose_amended ?fs = ''<head><style>a{}</style></head><body><script>x()</script></body>''"
    by code_simp
  with compose_injection_rule [of ?fs, THEN conjunct2, THEN mp, OF ok] show ?thesis by simp
qed

text \<open>
  A dollar pattern in a collected content is not injected as it is: here \<open>$'\<close> in the
  script becomes the text that follows \<open></body>\<close> in the document.
\<close>

lemma htmlContent_dollar_pattern:
  "htmlContent
     [\<lparr>fileName = ''index.html'', content = ''<body></body>!''\<rparr>,
      \<lparr>fileName = ''script.js'', content = ''a='' @ [CHR 0x27] @ ''$'' @ [CHR 0x27]\<rparr>]
   = ''<body><script>a='' @ [CHR 0x27] @ ''!</script></body>!''"
  by code_simp

end
